theory Spec2Isabelle
  imports Main "HOL-Library.Multiset"
begin

section \<open>Regular expressions of the validators\<close>

text \<open>
  Strings are lists of 8-bit characters: the JavaScript strings whose code units are
  all below 256. On these \<^verbatim>\<open>str.length\<close> is the list length, and validator.js's
  \<^verbatim>\<open>isLength\<close> (which discounts surrogate pairs and variation selectors) counts
  the same.

  The patterns in \<^verbatim>\<open>src/routes/users.js\<close> are anchored with \<^verbatim>\<open>^\<close> and
  \<^verbatim>\<open>$\<close> and have no multiline flag, so \<^verbatim>\<open>str.match(pattern)\<close> succeeds exactly
  when the whole string belongs to the pattern. A pattern is a value of \<open>regex\<close>;
  \<open>test\<close> decides membership by taking derivatives character by character.
\<close>

datatype regex =
    Fail
  | Empty
  | Class "(char \<times> char) list"
  | Then regex regex
  | Or regex regex
  | Many regex

text \<open>A character class is a list of inclusive ranges, \<^verbatim>\<open>[a-fA-F0-9]\<close> having three.\<close>

fun in_class :: "(char \<times> char) list \<Rightarrow> char \<Rightarrow> bool" where
  "in_class [] c = False"
| "in_class ((lo, hi) # rs) c =
     (((of_char lo :: nat) \<le> of_char c \<and> (of_char c :: nat) \<le> of_char hi) \<or> in_class rs c)"

definition Lit :: "char \<Rightarrow> regex" where
  "Lit c = Class [(c, c)]"

definition Opt :: "regex \<Rightarrow> regex" where
  "Opt r = Or r Empty"

definition Some1 :: "regex \<Rightarrow> regex" where
  "Some1 r = Then r (Many r)"

fun Times :: "nat \<Rightarrow> regex \<Rightarrow> regex" where
  "Times 0 r = Empty"
| "Times (Suc n) r = Then r (Times n r)"

fun nullable :: "regex \<Rightarrow> bool" where
  "nullable Fail = False"
| "nullable Empty = True"
| "nullable (Class rs) = False"
| "nullable (Then r s) = (nullable r \<and> nullable s)"
| "nullable (Or r s) = (nullable r \<or> nullable s)"
| "nullable (Many r) = True"

text \<open>Sequencing and choice that drop a dead branch, so that derivatives stay small.\<close>

fun seq :: "regex \<Rightarrow> regex \<Rightarrow> regex" where
  "seq Fail s = Fail"
| "seq Empty s = s"
| "seq r s = Then r s"

fun alt :: "regex \<Rightarrow> regex \<Rightarrow> regex" where
  "alt Fail s = s"
| "alt r Fail = r"
| "alt r s = Or r s"

fun deriv :: "char \<Rightarrow> regex \<Rightarrow> regex" where
  "deriv c Fail = Fail"
| "deriv c Empty = Fail"
| "deriv c (Class rs) = (if in_class rs c then Empty else Fail)"
| "deriv c (Then r s) =
     (if nullable r then alt (seq (deriv c r) s) (deriv c s) else seq (deriv c r) s)"
| "deriv c (Or r s) = alt (deriv c r) (deriv c s)"
| "deriv c (Many r) = seq (deriv c r) (Many r)"

fun test :: "regex \<Rightarrow> string \<Rightarrow> bool" where
  "test r [] = nullable r"
| "test r (c # cs) = test (deriv c r) cs"

text \<open>The strings a pattern denotes, against which \<open>test\<close> is proved right.\<close>

inductive_set star :: "string set \<Rightarrow> string set" for A :: "string set" where
  star_nil: "[] \<in> star A"
| star_app: "u \<in> A \<Longrightarrow> v \<in> star A \<Longrightarrow> u @ v \<in> star A"

fun lang :: "regex \<Rightarrow> string set" where
  "lang Fail = {}"
| "lang Empty = {[]}"
| "lang (Class rs) = {[c] | c. in_class rs c}"
| "lang (Then r s) = {u @ v | u v. u \<in> lang r \<and> v \<in> lang s}"
| "lang (Or r s) = lang r \<union> lang s"
| "lang (Many r) = star (lang r)"

section \<open>validator.js\<close>

text \<open>
  The handlers validate request bodies with express-validator, whose standard validators
  and sanitizers are the functions of validator.js applied to the field as a string.
  Those used by \<^verbatim>\<open>validateRegistration\<close> and \<^verbatim>\<open>validateAdmin\<close> follow, with the
  library's default options.
\<close>

definition isEmpty :: "string \<Rightarrow> bool" where
  \<comment> \<open>\<^verbatim>\<open>str.length === 0\<close>; whitespace is not ignored by default\<close>
  "isEmpty str = (length str = 0)"

definition isLength :: "nat \<Rightarrow> nat option \<Rightarrow> string \<Rightarrow> bool" where
  \<comment> \<open>\<^verbatim>\<open>len >= min && (typeof max === 'undefined' || len <= max)\<close>\<close>
  "isLength lo hi str =
     (lo \<le> length str \<and> (case hi of None \<Rightarrow> True | Some m \<Rightarrow> length str \<le> m))"

definition digit :: regex where
  "digit = Class [(CHR ''0'', CHR ''9'')]"

definition numeric :: regex where
  \<comment> \<open>\<^verbatim>\<open>/^[+-]?([0-9]*[.])?[0-9]+$/\<close>, the pattern of \<^verbatim>\<open>isNumeric\<close> without \<^verbatim>\<open>no_symbols\<close>\<close>
  "numeric =
     Then (Opt (Class [(CHR ''+'', CHR ''+''), (CHR ''-'', CHR ''-'')]))
       (Then (Opt (Then (Many digit) (Lit (CHR ''.'')))) (Some1 digit))"

definition isNumeric :: "string \<Rightarrow> bool" where
  "isNumeric str = test numeric str"

definition matches :: "regex \<Rightarrow> string \<Rightarrow> bool" where
  \<comment> \<open>\<^verbatim>\<open>!!str.match(pattern)\<close>\<close>
  "matches pattern str = test pattern str"

definition js_space :: "char \<Rightarrow> bool" where
  \<comment> \<open>the characters of \<^verbatim>\<open>\s\<close> below 256: tab, line feed, vertical tab, form feed,
      carriage return, space, no-break space\<close>
  "js_space c = (c \<in> set [CHR 0x09, CHR 0x0A, CHR 0x0B, CHR 0x0C, CHR 0x0D, CHR 0x20, CHR 0xA0])"

definition ltrim :: "string \<Rightarrow> string" where
  "ltrim str = dropWhile js_space str"

definition rtrim :: "string \<Rightarrow> string" where
  "rtrim str = rev (dropWhile js_space (rev str))"

definition trim :: "string \<Rightarrow> string" where
  "trim str = rtrim (ltrim str)"

definition replace_all :: "char \<Rightarrow> string \<Rightarrow> string \<Rightarrow> string" where
  \<comment> \<open>\<^verbatim>\<open>str.replace(/c/g, rep)\<close> for a single character \<open>c\<close>\<close>
  "replace_all c rep str = concat (map (\<lambda>d. if d = c then rep else [d]) str)"

definition escaped :: "char list" where
  \<comment> \<open>the characters \<^verbatim>\<open>escape\<close> replaces\<close>
  "escaped = [CHR ''&'', CHR 0x22, CHR 0x27, CHR ''<'', CHR ''>'', CHR ''/'', CHR 0x5C, CHR 0x60]"

definition escape :: "string \<Rightarrow> string" where
  \<comment> \<open>the eight replacements of \<^verbatim>\<open>escape\<close>, in the library's order: the ampersand,
      double quote, single quote, less-than, greater-than, slash, backslash and backtick\<close>
  "escape str =
     replace_all (CHR 0x60) ''&#96;''
       (replace_all (CHR 0x5C) ''&#x5C;''
         (replace_all (CHR ''/'') ''&#x2F;''
           (replace_all (CHR ''>'') ''&gt;''
             (replace_all (CHR ''<'') ''&lt;''
               (replace_all (CHR 0x27) ''&#x27;''
                 (replace_all (CHR 0x22) ''&quot;''
                   (replace_all (CHR ''&'') ''&amp;'' str)))))))"

section \<open>express-validator chains\<close>

text \<open>
  A body field is absent (\<^verbatim>\<open>undefined\<close>) or a string. A chain runs its steps in the
  order they are written: a validator sees the field as a string (absent is the empty
  string) and on failure records its \<^verbatim>\<open>withMessage\<close> text, all validators being run;
  a sanitizer rewrites a string field in \<^verbatim>\<open>req.body\<close> for the steps after it and for
  the handler. An \<^verbatim>\<open>optional()\<close> chain is skipped when the field is absent.
\<close>

datatype step =
    Validator "string \<Rightarrow> bool" string
  | Sanitizer "string \<Rightarrow> string"

datatype verror = VError (path: string) (msg: string)

definition toString :: "string option \<Rightarrow> string" where
  "toString v = (case v of None \<Rightarrow> [] | Some s \<Rightarrow> s)"

fun run_steps :: "step list \<Rightarrow> string option \<Rightarrow> string list \<times> string option" where
  "run_steps [] v = ([], v)"
| "run_steps (Validator ok m # ss) v =
     (let (ms, v') = run_steps ss v
      in ((if ok (toString v) then [] else [m]) @ ms, v'))"
| "run_steps (Sanitizer f # ss) v = run_steps ss (map_option f v)"

definition body_chain ::
  "string \<Rightarrow> bool \<Rightarrow> step list \<Rightarrow> string option \<Rightarrow> verror list \<times> string option" where
  "body_chain field optional ss v =
     (if optional \<and> v = None then ([], v)
      else let (ms, v') = run_steps ss v in (map (VError field) ms, v'))"

definition notEmpty :: "string \<Rightarrow> bool" where
  "notEmpty str = (\<not> isEmpty str)"

section \<open>Registration: request validation\<close>

record register_body =
  body_twitter_id :: "string option"
  body_twitter_username :: "string option"
  body_twitter_name :: "string option"
  body_telegram_username :: "string option"
  body_wallet_address :: "string option"

definition twitter_id_chain :: "step list" where
  "twitter_id_chain =
     [Validator notEmpty ''Twitter ID is required'',
      Validator isNumeric ''Twitter ID must be numeric'',
      Validator (isLength 1 (Some 20)) ''Twitter ID must be between 1 and 20 characters'']"

definition twitter_username_pattern :: regex where
  \<comment> \<open>\<^verbatim>\<open>/^[a-zA-Z0-9_]+$/\<close>\<close>
  "twitter_username_pattern =
     Some1 (Class [(CHR ''a'', CHR ''z''), (CHR ''A'', CHR ''Z''), (CHR ''0'', CHR ''9''),
                   (CHR ''_'', CHR ''_'')])"

definition twitter_username_chain :: "step list" where
  "twitter_username_chain =
     [Validator (isLength 1 (Some 25)) ''Twitter username must be between 1 and 15 characters'',
      Validator (matches twitter_username_pattern)
        ''Twitter username can only contain letters, numbers, and underscores'']"

definition telegram_username_chain :: "step list" where
  "telegram_username_chain =
     [Validator notEmpty ''Telegram username is required'',
      Validator (isLength 1 (Some 50)) ''Telegram username must be between 1 and 50 characters'',
      Sanitizer trim]"

definition wallet_address_pattern :: regex where
  \<comment> \<open>\<^verbatim>\<open>/^0x[a-fA-F0-9]{40}$/\<close>\<close>
  "wallet_address_pattern =
     Then (Lit (CHR ''0'')) (Then (Lit (CHR ''x''))
       (Times 40 (Class [(CHR ''a'', CHR ''f''), (CHR ''A'', CHR ''F''), (CHR ''0'', CHR ''9'')])))"

definition wallet_address_chain :: "step list" where
  "wallet_address_chain =
     [Validator notEmpty ''Wallet address is required'',
      Validator (isLength 42 (Some 42)) ''Wallet address must be exactly 42 characters'',
      Validator (matches wallet_address_pattern) ''Invalid Ethereum wallet address format'']"

definition validateRegistration :: "register_body \<Rightarrow> verror list \<times> register_body" where
  "validateRegistration b =
     (let (e1, v1) = body_chain ''twitter_id'' False twitter_id_chain (body_twitter_id b);
          (e2, v2) = body_chain ''twitter_username'' True twitter_username_chain
                       (body_twitter_username b);
          (e3, v3) = body_chain ''telegram_username'' False telegram_username_chain
                       (body_telegram_username b);
          (e4, v4) = body_chain ''wallet_address'' False wallet_address_chain
                       (body_wallet_address b)
      in (e1 @ e2 @ e3 @ e4,
          b\<lparr>body_twitter_id := v1, body_twitter_username := v2,
            body_telegram_username := v3, body_wallet_address := v4\<rparr>))"

section \<open>The profile table\<close>

text \<open>
  \<^verbatim>\<open>initializeDatabase\<close> creates \<^verbatim>\<open>user_profiles\<close> with a serial key, bounded
  character columns and three unique constraints. The table is the list of its rows in
  insertion order, with the last value of the key's sequence. Timestamps are points of a
  discrete clock, and every statement reaches the server and is executed: lost
  connections and rejected encodings are outside the model.
\<close>

record row =
  row_id :: nat
  wallet_address :: string
  twitter_id :: string
  twitter_username :: "string option"
  twitter_name :: "string option"
  telegram_username :: string
  created_at :: nat
  updated_at :: nat

record database =
  user_profiles :: "row list"
  user_profiles_id_seq :: nat

text \<open>A thrown JavaScript error: its \<^verbatim>\<open>code\<close> (set by the database driver) and message.\<close>

datatype js_error = JsError (code: "string option") (message: string)

definition varchar :: "nat \<Rightarrow> string \<Rightarrow> string option" where
  \<comment> \<open>storing into \<^verbatim>\<open>VARCHAR(n)\<close>: a longer string is an error unless the excess is
      all spaces, which are cut off\<close>
  "varchar n s =
     (if length s \<le> n then Some s
      else if list_all (\<lambda>c. c = CHR '' '') (drop n s) then Some (take n s)
      else None)"

definition varchar_null :: "nat \<Rightarrow> string option \<Rightarrow> string option option" where
  \<comment> \<open>a nullable column: \<^verbatim>\<open>undefined\<close> is sent as \<^verbatim>\<open>NULL\<close>\<close>
  "varchar_null n v = (case v of None \<Rightarrow> Some None | Some s \<Rightarrow> map_option Some (varchar n s))"

definition too_long :: "string \<Rightarrow> js_error" where
  "too_long n = JsError (Some ''22001'')
     (''value too long for type character varying('' @ n @ '')'')"

definition duplicate_key :: "string \<Rightarrow> js_error" where
  "duplicate_key constraint = JsError (Some ''23505'')
     (''duplicate key value violates unique constraint '' @ [CHR 0x22] @ constraint @ [CHR 0x22])"

definition insert_user_profile ::
  "string \<Rightarrow> string option \<Rightarrow> string option \<Rightarrow> string \<Rightarrow> string \<Rightarrow> nat \<Rightarrow> database
     \<Rightarrow> (js_error + row) \<times> database" where
  \<comment> \<open>\<^verbatim>\<open>INSERT INTO user_profiles (...) VALUES ($1, $2, $3, $4, $5, NOW(), NOW()) RETURNING *\<close>:
      the key is drawn from the sequence (and stays drawn when the statement fails), the
      values are fitted to their columns, then the unique constraints are checked\<close>
  "insert_user_profile tid tun tn tg w now db =
     (let n = user_profiles_id_seq db + 1;
          db' = db\<lparr>user_profiles_id_seq := n\<rparr>;
          rows = user_profiles db
      in case varchar 42 w of None \<Rightarrow> (Inl (too_long ''42''), db') | Some w' \<Rightarrow>
        (case varchar 100 tid of None \<Rightarrow> (Inl (too_long ''100''), db') | Some tid' \<Rightarrow>
        (case varchar_null 100 tun of None \<Rightarrow> (Inl (too_long ''100''), db') | Some tun' \<Rightarrow>
        (case varchar_null 200 tn of None \<Rightarrow> (Inl (too_long ''200''), db') | Some tn' \<Rightarrow>
        (case varchar 100 tg of None \<Rightarrow> (Inl (too_long ''100''), db') | Some tg' \<Rightarrow>
           if list_ex (\<lambda>r. twitter_id r = tid') rows
             then (Inl (duplicate_key ''uq_user_profiles_twitter_id''), db')
           else if list_ex (\<lambda>r. telegram_username r = tg') rows
             then (Inl (duplicate_key ''uq_user_profiles_telegram_username''), db')
           else if list_ex (\<lambda>r. wallet_address r = w') rows
             then (Inl (duplicate_key ''uq_user_profiles_wallet_address''), db')
           else
             let r = \<lparr>row_id = n, wallet_address = w', twitter_id = tid',
                      twitter_username = tun', twitter_name = tn', telegram_username = tg',
                      created_at = now, updated_at = now\<rparr>
             in (Inr r, db'\<lparr>user_profiles := rows @ [r]\<rparr>))))))"

definition select_existing :: "string \<Rightarrow> string \<Rightarrow> string \<Rightarrow> database \<Rightarrow> row list" where
  \<comment> \<open>\<^verbatim>\<open>SELECT * FROM user_profiles WHERE twitter_id = $1 OR telegram_username = $2
      OR wallet_address = $3\<close>\<close>
  "select_existing tid tg w db =
     filter (\<lambda>r. twitter_id r = tid \<or> telegram_username r = tg \<or> wallet_address r = w)
       (user_profiles db)"

definition select_all_newest_first :: "database \<Rightarrow> row list" where
  \<comment> \<open>\<^verbatim>\<open>SELECT * FROM user_profiles ORDER BY created_at DESC\<close>; rows of equal
      \<^verbatim>\<open>created_at\<close> come in an order the server chooses, here latest inserted first\<close>
  "select_all_newest_first db = rev (sort_key created_at (user_profiles db))"

section \<open>Responses\<close>

record entry =
  rank :: nat
  raider :: string
  score :: nat

datatype body =
    ValidationFailed "verror list"
  | Error string
  | Unauthorized string
  | UserRegistered row
  | Users "row list" nat
  | AuthUrl string
  | Data "entry list"

text \<open>
  \<open>Json status body\<close> is \<^verbatim>\<open>res.status(status).json(body)\<close>, where
  \<open>ValidationFailed details\<close> is \<^verbatim>\<open>{error: 'Validation failed', details}\<close>,
  \<open>Error m\<close> is \<^verbatim>\<open>{error: m}\<close>,
  \<open>Unauthorized m\<close> is \<^verbatim>\<open>{error: 'Unauthorized', message: m}\<close>,
  \<open>UserRegistered r\<close> is \<^verbatim>\<open>{success: true, message: 'User registered successfully', user: r}\<close>
  and \<open>Users rows n\<close> is \<^verbatim>\<open>{success: true, users: rows, count: n, message}\<close>.
  \<open>Redirect url\<close> is \<^verbatim>\<open>res.redirect(url)\<close>, and \<open>RedirectQuery base params\<close> redirects
  to \<open>base\<close> followed by \<^verbatim>\<open>?\<close> and the serialised parameters.
\<close>

datatype response =
    Json nat body
  | Redirect string
  | RedirectQuery string "(string \<times> string) list"

definition truthy :: "string option \<Rightarrow> bool" where
  \<comment> \<open>of a value that is \<^verbatim>\<open>undefined\<close> or a string, only the non-empty string is truthy\<close>
  "truthy v = (case v of None \<Rightarrow> False | Some s \<Rightarrow> s \<noteq> [])"

section \<open>POST /register\<close>

text \<open>
  The handler awaits two statements. \<open>register_check\<close> is the handler up to its
  \<^verbatim>\<open>SELECT\<close>, on the table as it is then, and yields a response or the values to insert;
  \<open>register_insert\<close> is the \<^verbatim>\<open>INSERT\<close> with the \<^verbatim>\<open>catch\<close> block, on the table as it
  is when the insert runs. \<open>register_post\<close> runs both with no other request in between.
\<close>

type_synonym new_profile = "string \<times> string option \<times> string option \<times> string \<times> string"

definition missing_required_fields :: response where
  "missing_required_fields = Json 400 (Error
     ''Missing required fields: twitter_id, telegram_username, and wallet_address are required'')"

definition register_check :: "register_body \<Rightarrow> database \<Rightarrow> response + new_profile" where
  "register_check req db =
     (let (errors, b) = validateRegistration req
      in if errors \<noteq> [] then Inl (Json 400 (ValidationFailed errors))
         else if \<not> truthy (body_twitter_id b) \<or> \<not> truthy (body_telegram_username b)
                 \<or> \<not> truthy (body_wallet_address b)
           then Inl missing_required_fields
         else
           let tid = toString (body_twitter_id b);
               tg = toString (body_telegram_username b);
               w = toString (body_wallet_address b);
               existingUser = select_existing tid tg w db
           in if length existingUser > 0
                then Inl (Json 400 (Error
                  ''User already registered with this Twitter, Telegram, or wallet address''))
              else Inr (tid, body_twitter_username b, body_twitter_name b, tg, w))"

definition register_insert :: "new_profile \<Rightarrow> nat \<Rightarrow> database \<Rightarrow> response \<times> database" where
  "register_insert p now db =
     (case p of (tid, tun, tn, tg, w) \<Rightarrow>
        (case insert_user_profile tid tun tn tg w now db of
           (Inr r, db') \<Rightarrow> (Json 200 (UserRegistered r), db')
         | (Inl e, db') \<Rightarrow>
             if code e = Some ''23505'' then (Json 400 (Error ''User already registered''), db')
             else (Json 500 (Error (message e)), db')))"

definition register_post :: "register_body \<Rightarrow> nat \<Rightarrow> database \<Rightarrow> response \<times> database" where
  "register_post req now db =
     (case register_check req db of
        Inl res \<Rightarrow> (res, db)
      | Inr p \<Rightarrow> register_insert p now db)"

section \<open>POST /users\<close>

record admin_body =
  body_username :: "string option"
  body_password :: "string option"

record env =
  ADMIN_USERNAME :: "string option"
  ADMIN_PASSWORD :: "string option"
  FRONTEND_URL :: "string option"

definition username_chain :: "step list" where
  "username_chain =
     [Validator notEmpty ''Username is required'',
      Validator (isLength 3 (Some 50)) ''Username must be between 3 and 50 characters'',
      Sanitizer trim,
      Sanitizer escape]"

definition password_chain :: "step list" where
  "password_chain =
     [Validator notEmpty ''Password is required'',
      Validator (isLength 8 None) ''Password must be at least 8 characters long'']"

definition validateAdmin :: "admin_body \<Rightarrow> verror list \<times> admin_body" where
  "validateAdmin b =
     (let (e1, v1) = body_chain ''username'' False username_chain (body_username b);
          (e2, v2) = body_chain ''password'' False password_chain (body_password b)
      in (e1 @ e2, b\<lparr>body_username := v1, body_password := v2\<rparr>))"

definition users_post :: "admin_body \<Rightarrow> env \<Rightarrow> database \<Rightarrow> response" where
  "users_post req e db =
     (let (errors, b) = validateAdmin req
      in if errors \<noteq> [] then Json 400 (ValidationFailed errors)
         else if body_username b \<noteq> ADMIN_USERNAME e \<or> body_password b \<noteq> ADMIN_PASSWORD e
           then Json 401 (Unauthorized ''Invalid admin credentials'')
         else
           let rows = select_all_newest_first db
           in Json 200 (Users rows (length rows)))"

section \<open>GET /top-raiders\<close>


section \<open>The OAuth handshake\<close>

text \<open>
  \<^verbatim>\<open>global.tempTokenStorage\<close> is undefined until the first request token is stored, then a
  \<^verbatim>\<open>Map\<close> from request token to secret. The handlers sign and send requests to the
  provider; the model takes what \<^verbatim>\<open>fetch\<close> yields as given: a rejection with its
  message, or a response with its status and body text. Whether \<^verbatim>\<open>oauth\<close> was initialised
  is a flag, and parsing of bodies is left to the platform, as in the source:
  \<open>URLSearchParams\<close> gives the name-value pairs of a form-encoded text and
  \<open>JSON_parse\<close> the profile of a JSON text, if it is one. The messages of errors the
  platform throws inside the callback are only logged; the model gives them a stand-in
  text.
\<close>

type_synonym token_storage = "(string \<rightharpoonup> string) option"

datatype fetch_result =
    Rejected string
  | Response nat string

definition ok :: "nat \<Rightarrow> bool" where
  \<comment> \<open>\<^verbatim>\<open>response.ok\<close>\<close>
  "ok status = (200 \<le> status \<and> status \<le> 299)"

definition get :: "(string \<times> string) list \<Rightarrow> string \<Rightarrow> string option" where
  \<comment> \<open>\<^verbatim>\<open>URLSearchParams.get\<close>: the first value of that name\<close>
  "get params name = map_of params name"

definition TWITTER_AUTHORIZE_URL :: string where
  "TWITTER_AUTHORIZE_URL = ''https://api.twitter.com/oauth/authorize''"


definition auth_twitter_try ::
  "bool \<Rightarrow> (string \<Rightarrow> (string \<times> string) list) \<Rightarrow> fetch_result \<Rightarrow> token_storage
     \<Rightarrow> js_error + response \<times> token_storage" where
  \<comment> \<open>the \<^verbatim>\<open>try\<close> block of \<^verbatim>\<open>GET /auth/twitter\<close>\<close>
  "auth_twitter_try oauth URLSearchParams fetched storage =
     (if \<not> oauth then
        Inr (Json 500 (Error (''Twitter API credentials not configured. Please add '' @
               ''TWITTER_API_KEY and TWITTER_API_SECRET to your environment variables.'')),
             storage)
      else case fetched of
        Rejected m \<Rightarrow> Inl (JsError None m)
      | Response status text \<Rightarrow>
          if \<not> ok status then Inl (JsError None (''Failed to get request token: '' @ text))
          else
            let tokenData = URLSearchParams text;
                oauth_token = get tokenData ''oauth_token'';
                oauth_token_secret = get tokenData ''oauth_token_secret''
            in if \<not> truthy oauth_token \<or> \<not> truthy oauth_token_secret
                 then Inl (JsError None ''Invalid response from Twitter'')
               else
                 let m = (case storage of None \<Rightarrow> Map.empty | Some m \<Rightarrow> m)
                 in Inr (Json 200 (AuthUrl
                           (TWITTER_AUTHORIZE_URL @ ''?oauth_token='' @ toString oauth_token)),
                         Some (m(toString oauth_token \<mapsto> toString oauth_token_secret))))"

definition auth_twitter ::
  "bool \<Rightarrow> (string \<Rightarrow> (string \<times> string) list) \<Rightarrow> fetch_result \<Rightarrow> token_storage
     \<Rightarrow> response \<times> token_storage" where
  "auth_twitter oauth URLSearchParams fetched storage =
     (case auth_twitter_try oauth URLSearchParams fetched storage of
        Inr done \<Rightarrow> done
      | Inl error \<Rightarrow> (Json 500 (Error (message error)), storage))"

record twitter_user =
  id_str :: "string option"
  screen_name :: "string option"
  name :: "string option"
  profile_image_url_https :: "string option"






section \<open>Notions of the specification\<close>

text \<open>
  A field passes its chain when the chain records no error for it. The specification
  speaks of hexadecimal and numeric characters; they are listed here as it names them,
  independently of the ranges in the patterns.
\<close>

definition passes :: "string \<Rightarrow> bool \<Rightarrow> step list \<Rightarrow> string option \<Rightarrow> bool" where
  "passes field optional ss v = (fst (body_chain field optional ss v) = [])"

definition hex_digit :: "char \<Rightarrow> bool" where
  "hex_digit c = (c \<in> set ''0123456789abcdefABCDEF'')"

definition decimal_digit :: "char \<Rightarrow> bool" where
  "decimal_digit c = (c \<in> set ''0123456789'')"

section \<open>Sample data\<close>

text \<open>
  The registration of the specification's scenario, the row it creates in an empty table
  at time 7, and an administrator's environment.
\<close>

definition alice :: register_body where
  "alice = \<lparr>body_twitter_id = Some ''42'', body_twitter_username = Some ''alice_w'',
            body_twitter_name = Some ''Alice'', body_telegram_username = Some ''alice'',
            body_wallet_address = Some ''0xaaaaaaaaaaaaaaaaaaaaaaaaaaaaaaaaaaaaaaaa''\<rparr>"

definition alice_row :: row where
  "alice_row = \<lparr>row_id = 1, wallet_address = ''0xaaaaaaaaaaaaaaaaaaaaaaaaaaaaaaaaaaaaaaaa'',
                twitter_id = ''42'', twitter_username = Some ''alice_w'',
                twitter_name = Some ''Alice'', telegram_username = ''alice'',
                created_at = 7, updated_at = 7\<rparr>"

definition empty_db :: database where
  "empty_db = \<lparr>user_profiles = [], user_profiles_id_seq = 0\<rparr>"

definition alice_db :: database where
  "alice_db = \<lparr>user_profiles = [alice_row], user_profiles_id_seq = 1\<rparr>"

definition bob :: register_body where
  "bob = \<lparr>body_twitter_id = Some ''77'', body_twitter_username = None,
          body_twitter_name = None, body_telegram_username = Some '' bob '',
          body_wallet_address = Some ''0xbbbbbbbbbbbbbbbbbbbbbbbbbbbbbbbbbbbbbbbb''\<rparr>"

definition admin_env :: env where
  "admin_env = \<lparr>ADMIN_USERNAME = Some ''admin'', ADMIN_PASSWORD = Some ''correct horse'',
                FRONTEND_URL = None\<rparr>"

definition bob_row :: row where
  "bob_row = \<lparr>row_id = 2, wallet_address = ''0xbbbbbbbbbbbbbbbbbbbbbbbbbbbbbbbbbbbbbbbb'',
              twitter_id = ''77'', twitter_username = None, twitter_name = None,
              telegram_username = ''bob'', created_at = 9, updated_at = 9\<rparr>"

definition admin :: admin_body where
  "admin = \<lparr>body_username = Some ''admin'', body_password = Some ''correct horse''\<rparr>"

text \<open>
  What the platform's parsers yield on the provider responses used below: a request-token
  response, one whose token is empty, one without a secret, and a profile.
\<close>

definition sample_URLSearchParams :: "string \<Rightarrow> (string \<times> string) list" where
  "sample_URLSearchParams text =
     (if text = ''oauth_token=tok&oauth_token_secret=s3cret''
        then [(''oauth_token'', ''tok''), (''oauth_token_secret'', ''s3cret'')]
      else if text = ''oauth_token=&oauth_token_secret=s3cret''
        then [(''oauth_token'', ''''), (''oauth_token_secret'', ''s3cret'')]
      else if text = ''oauth_token=tok''
        then [(''oauth_token'', ''tok'')]
      else [])"


section \<open>Properties of the pattern matcher\<close>

lemma lang_seq: "lang (seq r s) = lang (Then r s)"
  by (cases r) auto

lemma lang_alt: "lang (alt r s) = lang (Or r s)"
  by (cases r; cases s) auto

lemma nullable_lang: "nullable r \<longleftrightarrow> [] \<in> lang r"
  by (induction r) (auto intro: star.intros)

lemma star_cons:
  "c # w \<in> star A \<longleftrightarrow> (\<exists>u v. w = u @ v \<and> c # u \<in> A \<and> v \<in> star A)"
proof
  assume "c # w \<in> star A"
  then show "\<exists>u v. w = u @ v \<and> c # u \<in> A \<and> v \<in> star A"
  proof (induction "c # w" rule: star.induct)
    case (star_app u v)
    then show ?case by (cases u) auto
  qed
next
  assume "\<exists>u v. w = u @ v \<and> c # u \<in> A \<and> v \<in> star A"
  then obtain u v where "w = u @ v" "c # u \<in> A" "v \<in> star A" by blast
  then show "c # w \<in> star A"
    using star.star_app [of "c # u" A v] by simp
qed

lemma lang_deriv: "lang (deriv c r) = {w. c # w \<in> lang r}"
proof (induction r)
  case (Then r s)
  have "{w. c # w \<in> lang (Then r s)} =
        {u @ v | u v. c # u \<in> lang r \<and> v \<in> lang s} \<union>
        (if [] \<in> lang r then {w. c # w \<in> lang s} else {})"
    by (auto simp: Cons_eq_append_conv)
  with Then show ?case
    by (auto simp: lang_seq lang_alt nullable_lang)
next
  case (Many r)
  then show ?case
    by (auto simp: lang_seq star_cons)
qed (auto simp: lang_alt)

lemma test_lang: "test r s \<longleftrightarrow> s \<in> lang r"
  by (induction s arbitrary: r) (simp_all add: nullable_lang lang_deriv)

section \<open>Languages of the patterns\<close>

lemma range_0_9:
  "((of_char (CHR ''0'') :: nat) \<le> of_char c \<and> (of_char c :: nat) \<le> of_char (CHR ''9'')) \<longleftrightarrow>
   c \<in> set ''0123456789''"
proof
  assume "(of_char (CHR ''0'') :: nat) \<le> of_char c \<and> (of_char c :: nat) \<le> of_char (CHR ''9'')"
  then have "(of_char c :: nat) \<in> of_char ` set ''0123456789''" by simp arith
  then show "c \<in> set ''0123456789''" by (auto simp only: of_char_eq_iff image_iff)
next
  assume "c \<in> set ''0123456789''"
  then show "(of_char (CHR ''0'') :: nat) \<le> of_char c \<and> (of_char c :: nat) \<le> of_char (CHR ''9'')"
    by auto
qed

lemma range_a_f:
  "((of_char (CHR ''a'') :: nat) \<le> of_char c \<and> (of_char c :: nat) \<le> of_char (CHR ''f'')) \<longleftrightarrow>
   c \<in> set ''abcdef''"
proof
  assume "(of_char (CHR ''a'') :: nat) \<le> of_char c \<and> (of_char c :: nat) \<le> of_char (CHR ''f'')"
  then have "(of_char c :: nat) \<in> of_char ` set ''abcdef''" by simp arith
  then show "c \<in> set ''abcdef''" by (auto simp only: of_char_eq_iff image_iff)
next
  assume "c \<in> set ''abcdef''"
  then show "(of_char (CHR ''a'') :: nat) \<le> of_char c \<and> (of_char c :: nat) \<le> of_char (CHR ''f'')"
    by auto
qed

lemma range_A_F:
  "((of_char (CHR ''A'') :: nat) \<le> of_char c \<and> (of_char c :: nat) \<le> of_char (CHR ''F'')) \<longleftrightarrow>
   c \<in> set ''ABCDEF''"
proof
  assume "(of_char (CHR ''A'') :: nat) \<le> of_char c \<and> (of_char c :: nat) \<le> of_char (CHR ''F'')"
  then have "(of_char c :: nat) \<in> of_char ` set ''ABCDEF''" by simp arith
  then show "c \<in> set ''ABCDEF''" by (auto simp only: of_char_eq_iff image_iff)
next
  assume "c \<in> set ''ABCDEF''"
  then show "(of_char (CHR ''A'') :: nat) \<le> of_char c \<and> (of_char c :: nat) \<le> of_char (CHR ''F'')"
    by auto
qed

lemma in_class_hex:
  "in_class [(CHR ''a'', CHR ''f''), (CHR ''A'', CHR ''F''), (CHR ''0'', CHR ''9'')] c \<longleftrightarrow> hex_digit c"
proof -
  have "''0123456789abcdefABCDEF'' = ''0123456789'' @ ''abcdef'' @ ''ABCDEF''" by simp
  then have "hex_digit c \<longleftrightarrow> c \<in> set ''0123456789'' \<or> c \<in> set ''abcdef'' \<or> c \<in> set ''ABCDEF''"
    unfolding hex_digit_def by (simp only: set_append Un_iff)
  then show ?thesis
    unfolding in_class.simps range_0_9 range_a_f range_A_F by blast
qed

lemma in_class_digit: "in_class [(CHR ''0'', CHR ''9'')] c \<longleftrightarrow> decimal_digit c"
  unfolding in_class.simps range_0_9 decimal_digit_def by simp

lemma lang_Lit: "lang (Lit c) = {[c]}"
  by (auto simp: Lit_def)

lemma star_Class: "star {[c] | c. P c} = {s. list_all P s}"
proof (rule set_eqI, rule iffI)
  fix s assume "s \<in> star {[c] | c. P c}"
  then show "s \<in> {s. list_all P s}" by induction auto
next
  fix s assume "s \<in> {s. list_all P s}"
  then have "list_all P s" by simp
  then show "s \<in> star {[c] | c. P c}"
  proof (induction s)
    case Nil show ?case by (rule star.star_nil)
  next
    case (Cons a s)
    then have "[a] \<in> {[c] | c. P c}" "s \<in> star {[c] | c. P c}" by auto
    then have "[a] @ s \<in> star {[c] | c. P c}" by (rule star.star_app)
    then show ?case by simp
  qed
qed

lemma lang_Many_Class: "lang (Many (Class rs)) = {s. list_all (in_class rs) s}"
  using star_Class [of "in_class rs"] by simp

lemma conc_Class:
  "{u @ v | u v. u \<in> {[c] | c. P c} \<and> v \<in> B} = {c # v | c v. P c \<and> v \<in> B}"
proof -
  have "\<exists>u w. c # v = u @ w \<and> u \<in> {[c] | c. P c} \<and> w \<in> B" if "P c" "v \<in> B" for c v
  proof -
    from that have "c # v = [c] @ v \<and> [c] \<in> {[c] | c. P c} \<and> v \<in> B" by simp
    then show ?thesis by blast
  qed
  then show ?thesis by auto
qed

lemma lang_Some1_Class: "lang (Some1 (Class rs)) = {s. s \<noteq> [] \<and> list_all (in_class rs) s}"
proof (rule set_eqI)
  fix s
  show "s \<in> lang (Some1 (Class rs)) \<longleftrightarrow> s \<in> {s. s \<noteq> [] \<and> list_all (in_class rs) s}"
    unfolding Some1_def lang.simps lang_Many_Class [simplified] conc_Class
    by (cases s) auto
qed

lemma lang_Times_Class: "lang (Times n (Class rs)) = {s. length s = n \<and> list_all (in_class rs) s}"
proof (induction n)
  case 0
  show ?case by auto
next
  case (Suc n)
  have "lang (Times (Suc n) (Class rs)) =
        {c # v | c v. in_class rs c \<and> v \<in> lang (Times n (Class rs))}"
    unfolding Times.simps lang.simps conc_Class ..
  also have "\<dots> = {s. length s = Suc n \<and> list_all (in_class rs) s}"
    unfolding Suc.IH
  proof (rule set_eqI)
    fix s
    show "s \<in> {c # v | c v. in_class rs c \<and> v \<in> {s. length s = n \<and> list_all (in_class rs) s}}
          \<longleftrightarrow> s \<in> {s. length s = Suc n \<and> list_all (in_class rs) s}"
      by (cases s) auto
  qed
  finally show ?case .
qed

lemma lang_Opt: "lang (Opt r) = insert [] (lang r)"
  by (auto simp: Opt_def)

lemma lang_wallet:
  "lang wallet_address_pattern = {''0x'' @ hs | hs. length hs = 40 \<and> list_all hex_digit hs}"
  unfolding wallet_address_pattern_def lang.simps(4) lang_Lit lang_Times_Class in_class_hex
  by auto

lemma passes3:
  "passes f False [Validator p1 m1, Validator p2 m2, Validator p3 m3] v \<longleftrightarrow>
   p1 (toString v) \<and> p2 (toString v) \<and> p3 (toString v)"
  by (simp add: passes_def body_chain_def)

lemma wallet_passes:
  "passes ''wallet_address'' False wallet_address_chain v \<longleftrightarrow>
   (\<exists>hs. v = Some (''0x'' @ hs) \<and> length hs = 40 \<and> list_all hex_digit hs)"
  unfolding wallet_address_chain_def passes3 matches_def test_lang lang_wallet
  by (cases v) (auto simp: toString_def notEmpty_def isEmpty_def isLength_def)

lemma in_class_sign:
  "in_class [(CHR ''+'', CHR ''+''), (CHR ''-'', CHR ''-'')] c \<longleftrightarrow> c = CHR ''+'' \<or> c = CHR ''-''"
proof -
  have "in_class [(CHR ''+'', CHR ''+''), (CHR ''-'', CHR ''-'')] c \<longleftrightarrow>
        (of_char c :: nat) = of_char (CHR ''+'') \<or> (of_char c :: nat) = of_char (CHR ''-'')"
    by auto
  then show ?thesis by (simp only: of_char_eq_iff)
qed

lemma conc3:
  "{u @ v | u v. u \<in> A \<and> v \<in> {x @ y | x y. x \<in> B \<and> y \<in> C}} =
   {s @ w @ d | s w d. s \<in> A \<and> w \<in> B \<and> d \<in> C}"
  by blast

lemma lang_sign:
  "lang (Opt (Class [(CHR ''+'', CHR ''+''), (CHR ''-'', CHR ''-'')])) = {[], ''+'', ''-''}"
  unfolding lang_Opt lang.simps in_class_sign by auto

lemma lang_whole:
  "lang (Opt (Then (Many digit) (Lit (CHR ''.'')))) =
   {w. w = [] \<or> (\<exists>ws. w = ws @ ''.'' \<and> list_all decimal_digit ws)}"
  unfolding lang_Opt lang.simps(4) lang_Lit digit_def lang_Many_Class in_class_digit by auto

lemma lang_digits: "lang (Some1 digit) = {s. s \<noteq> [] \<and> list_all decimal_digit s}"
  unfolding digit_def lang_Some1_Class in_class_digit ..

lemma lang_numeric:
  "lang numeric =
   {sign @ whole @ ds | sign whole ds.
      sign \<in> {[], ''+'', ''-''} \<and>
      (whole = [] \<or> (\<exists>ws. whole = ws @ ''.'' \<and> list_all decimal_digit ws)) \<and>
      ds \<noteq> [] \<and> list_all decimal_digit ds}"
  unfolding numeric_def lang.simps(4) lang_sign lang_whole lang_digits conc3
  by (simp only: mem_Collect_eq)

lemma twitter_id_passes:
  "passes ''twitter_id'' False twitter_id_chain v \<longleftrightarrow>
   (\<exists>s. v = Some s \<and> 1 \<le> length s \<and> length s \<le> 20 \<and> s \<in> lang numeric)"
  unfolding twitter_id_chain_def passes3 isNumeric_def test_lang
  by (cases v) (auto simp: toString_def notEmpty_def isEmpty_def isLength_def)

lemma digits_numeric: "s \<noteq> [] \<Longrightarrow> list_all decimal_digit s \<Longrightarrow> s \<in> lang numeric"
proof -
  assume "s \<noteq> []" "list_all decimal_digit s"
  then have "s = [] @ [] @ s \<and> [] \<in> {[], ''+'', ''-''} \<and> s \<noteq> [] \<and> list_all decimal_digit s"
    by simp
  then show ?thesis unfolding lang_numeric by blast
qed

lemma numeric_chars:
  assumes "s \<in> lang numeric" "c \<in> set s"
  shows "decimal_digit c \<or> c \<in> set ''+-.''"
proof -
  from assms(1) obtain sign whole ds where s: "s = sign @ whole @ ds"
    and sg: "sign \<in> {[], ''+'', ''-''}"
    and wh: "whole = [] \<or> (\<exists>ws. whole = ws @ ''.'' \<and> list_all decimal_digit ws)"
    and ds: "list_all decimal_digit ds"
    unfolding lang_numeric by blast
  from assms(2) s consider "c \<in> set sign" | "c \<in> set whole" | "c \<in> set ds" by auto
  then show ?thesis
  proof cases
    case 1 with sg show ?thesis by auto
  next
    case 2 with wh show ?thesis by (auto simp: list_all_iff)
  next
    case 3 with ds show ?thesis by (auto simp: list_all_iff)
  qed
qed

section \<open>Registration: what validation establishes\<close>

lemma snd_body_chain_twitter_id [simp]:
  "snd (body_chain f opt twitter_id_chain v) = v"
  by (simp add: body_chain_def twitter_id_chain_def del: append.simps)

lemma snd_body_chain_twitter_username [simp]:
  "snd (body_chain f opt twitter_username_chain v) = v"
  by (simp add: body_chain_def twitter_username_chain_def)

lemma snd_body_chain_wallet_address [simp]:
  "snd (body_chain f opt wallet_address_chain v) = v"
  by (simp add: body_chain_def wallet_address_chain_def)

lemma snd_body_chain_telegram_username [simp]:
  "snd (body_chain f False telegram_username_chain v) = map_option trim v"
  by (simp add: body_chain_def telegram_username_chain_def)

lemma validateRegistration_errors:
  "fst (validateRegistration req) =
     fst (body_chain ''twitter_id'' False twitter_id_chain (body_twitter_id req)) @
     fst (body_chain ''twitter_username'' True twitter_username_chain (body_twitter_username req)) @
     fst (body_chain ''telegram_username'' False telegram_username_chain (body_telegram_username req)) @
     fst (body_chain ''wallet_address'' False wallet_address_chain (body_wallet_address req))"
  by (simp add: validateRegistration_def split_def)

lemma validateRegistration_body:
  "snd (validateRegistration req) =
     req\<lparr>body_telegram_username := map_option trim (body_telegram_username req)\<rparr>"
  by (simp add: validateRegistration_def split_def)

lemma validateRegistration_passes:
  "fst (validateRegistration req) = [] \<longleftrightarrow>
     passes ''twitter_id'' False twitter_id_chain (body_twitter_id req) \<and>
     passes ''twitter_username'' True twitter_username_chain (body_twitter_username req) \<and>
     passes ''telegram_username'' False telegram_username_chain (body_telegram_username req) \<and>
     passes ''wallet_address'' False wallet_address_chain (body_wallet_address req)"
  unfolding validateRegistration_errors passes_def by simp

lemma telegram_username_passes:
  "passes ''telegram_username'' False telegram_username_chain v \<longleftrightarrow>
   (\<exists>s. v = Some s \<and> 1 \<le> length s \<and> length s \<le> 50)"
  by (cases v)
     (auto simp: passes_def body_chain_def telegram_username_chain_def toString_def
        notEmpty_def isEmpty_def isLength_def)

lemma twitter_username_passes:
  "passes ''twitter_username'' True twitter_username_chain v \<Longrightarrow>
   v = None \<or> (\<exists>s. v = Some s \<and> length s \<le> 25)"
  by (cases v)
     (auto simp: passes_def body_chain_def twitter_username_chain_def toString_def
        isLength_def split: if_splits)

text \<open>What a request that passed validation looks like.\<close>

lemma valid_registration:
  assumes "fst (validateRegistration req) = []"
  obtains tid tg w where
    "body_twitter_id req = Some tid" "tid \<noteq> []" "length tid \<le> 20"
    "body_telegram_username req = Some tg" "tg \<noteq> []" "length tg \<le> 50"
    "body_wallet_address req = Some w" "length w = 42"
    "body_twitter_username req = None \<or> (\<exists>u. body_twitter_username req = Some u \<and> length u \<le> 25)"
proof -
  from assms have p: "passes ''twitter_id'' False twitter_id_chain (body_twitter_id req)"
    "passes ''twitter_username'' True twitter_username_chain (body_twitter_username req)"
    "passes ''telegram_username'' False telegram_username_chain (body_telegram_username req)"
    "passes ''wallet_address'' False wallet_address_chain (body_wallet_address req)"
    unfolding validateRegistration_passes by simp_all
  from p(1) obtain tid where t: "body_twitter_id req = Some tid" "1 \<le> length tid" "length tid \<le> 20"
    unfolding twitter_id_passes by blast
  from p(3) obtain tg where g: "body_telegram_username req = Some tg" "1 \<le> length tg" "length tg \<le> 50"
    unfolding telegram_username_passes by blast
  from p(4) obtain w where w: "body_wallet_address req = Some w" "length w = 42"
    unfolding wallet_passes by auto
  from t(2) g(2) have "tid \<noteq> []" "tg \<noteq> []" by auto
  with t g w twitter_username_passes [OF p(2)] show ?thesis
    by (intro that [of tid tg w])
qed


lemma register_check_valid:
  assumes "fst (validateRegistration req) = []"
  shows "register_check req db =
     (let tid = toString (body_twitter_id req);
          tg = trim (toString (body_telegram_username req));
          w = toString (body_wallet_address req)
      in if tg = [] then Inl missing_required_fields
         else if select_existing tid tg w db \<noteq> []
           then Inl (Json 400 (Error
                  ''User already registered with this Twitter, Telegram, or wallet address''))
         else Inr (tid, body_twitter_username req, body_twitter_name req, tg, w))"
proof -
  from assms obtain tid tg w where f:
    "body_twitter_id req = Some tid" "tid \<noteq> []"
    "body_telegram_username req = Some tg"
    "body_wallet_address req = Some w" "length w = 42"
    by (rule valid_registration)
  from f(5) have "w \<noteq> []" by auto
  have "validateRegistration req =
        ([], req\<lparr>body_telegram_username := map_option trim (body_telegram_username req)\<rparr>)"
    using assms validateRegistration_body [of req] by (simp add: prod_eq_iff)
  with f \<open>w \<noteq> []\<close> show ?thesis
    by (simp add: register_check_def truthy_def toString_def Let_def)
qed



section \<open>The table under insert and select\<close>







section \<open>The admin listing: validation and order\<close>

lemma validateAdmin_errors:
  "fst (validateAdmin req) = [] \<longleftrightarrow>
   (\<exists>u p. body_username req = Some u \<and> 3 \<le> length u \<and> length u \<le> 50 \<and>
          body_password req = Some p \<and> 8 \<le> length p)"
  by (cases "body_username req"; cases "body_password req")
     (auto simp: validateAdmin_def body_chain_def username_chain_def password_chain_def
        toString_def notEmpty_def isEmpty_def isLength_def)

lemma validateAdmin_body:
  "snd (validateAdmin req) =
   req\<lparr>body_username := map_option (escape \<circ> trim) (body_username req)\<rparr>"
  by (simp add: validateAdmin_def body_chain_def username_chain_def password_chain_def
        split_def option.map_comp)

lemma users_post_valid:
  assumes "fst (validateAdmin req) = []"
  shows "users_post req e db =
     (if map_option (escape \<circ> trim) (body_username req) = ADMIN_USERNAME e
         \<and> body_password req = ADMIN_PASSWORD e
      then Json 200 (Users (select_all_newest_first db) (length (select_all_newest_first db)))
      else Json 401 (Unauthorized ''Invalid admin credentials''))"
proof -
  have "validateAdmin req =
        ([], req\<lparr>body_username := map_option (escape \<circ> trim) (body_username req)\<rparr>)"
    using assms validateAdmin_body [of req] by (simp add: prod_eq_iff)
  then show ?thesis by (simp add: users_post_def Let_def)
qed

lemma users_post_invalid:
  assumes "fst (validateAdmin req) \<noteq> []"
  shows "users_post req e db = Json 400 (ValidationFailed (fst (validateAdmin req)))"
  using assms by (simp add: users_post_def split_def)

lemma newest_first_mset: "mset (select_all_newest_first db) = mset (user_profiles db)"
  by (simp add: select_all_newest_first_def)

lemma newest_first_sorted:
  "sorted_wrt (\<lambda>a b. created_at a \<ge> created_at b) (select_all_newest_first db)"
proof -
  have "sorted (map created_at (sort_key created_at (user_profiles db)))"
    by (rule sorted_sort_key)
  then have "sorted_wrt (\<lambda>a b. created_at a \<le> created_at b) (sort_key created_at (user_profiles db))"
    by (simp add: sorted_wrt_map)
  then show ?thesis
    by (simp add: select_all_newest_first_def sorted_wrt_rev)
qed

section \<open>The sanitizers\<close>

lemma replace_all_absent: "c \<notin> set s \<Longrightarrow> replace_all c rep s = s"
  by (induction s) (auto simp: replace_all_def)

lemma set_replace_all: "set (replace_all c rep s) \<subseteq> (set s - {c}) \<union> set rep"
  by (induction s) (auto simp: replace_all_def)

lemma escape_plain: "set s \<inter> set escaped = {} \<Longrightarrow> escape s = s"
  by (simp add: escape_def escaped_def replace_all_absent)

lemma replaced_gone: "c \<notin> set rep \<Longrightarrow> c \<notin> set (replace_all c rep s)"
  using set_replace_all [of c rep s] by auto

lemma replace_other:
  "c \<noteq> d \<Longrightarrow> c \<notin> set rep \<Longrightarrow> c \<in> set (replace_all d rep s) \<longleftrightarrow> c \<in> set s"
  by (induction s) (auto simp: replace_all_def)

lemma escape_markup_free:
  assumes "c \<in> set escaped" "c \<noteq> CHR ''&''"
  shows "c \<notin> set (escape s)"
proof -
  from assms consider "c = CHR 0x22" | "c = CHR 0x27" | "c = CHR ''<''" | "c = CHR ''>''"
    | "c = CHR ''/''" | "c = CHR 0x5C" | "c = CHR 0x60"
    by (auto simp: escaped_def)
  then show ?thesis
    by cases (simp_all add: escape_def replace_other replaced_gone)
qed

lemma dropWhile_same_length: "length (dropWhile P xs) = length xs \<Longrightarrow> dropWhile P xs = xs"
proof (cases xs)
  case Nil
  then show ?thesis by simp
next
  case (Cons x xs')
  assume l: "length (dropWhile P xs) = length xs"
  show ?thesis
  proof (cases "P x")
    case True
    with Cons l have "length (dropWhile P xs') = Suc (length xs')" by simp
    with length_dropWhile_le [of P xs'] show ?thesis by simp
  next
    case False
    with Cons show ?thesis by simp
  qed
qed

lemma trimmed_ends:
  assumes "trim a = a"
  shows "dropWhile js_space a = a \<and> dropWhile js_space (rev a) = rev a"
proof -
  let ?b = "dropWhile js_space a"
  from assms have eq: "rev (dropWhile js_space (rev ?b)) = a"
    by (simp add: trim_def rtrim_def ltrim_def)
  then have "length a = length (dropWhile js_space (rev ?b))"
    by (metis length_rev)
  also have "\<dots> \<le> length (rev ?b)" by (rule length_dropWhile_le)
  finally have "length a \<le> length ?b" by simp
  with length_dropWhile_le [of js_space a] have "length ?b = length a" by simp
  then have b: "?b = a" by (rule dropWhile_same_length)
  with eq have "dropWhile js_space (rev a) = rev a" by (metis rev_rev_ident)
  with b show ?thesis by simp
qed

lemma trim_padded:
  assumes "trim a = a" "list_all js_space l" "list_all js_space r"
  shows "trim (l @ a @ r) = a"
proof -
  from trimmed_ends [OF assms(1)]
  have front: "dropWhile js_space a = a" and rear: "dropWhile js_space (rev a) = rev a"
    by simp_all
  from assms(2) have "ltrim (l @ a @ r) = dropWhile js_space (a @ r)"
    by (simp add: ltrim_def list_all_iff dropWhile_append2)
  also have "\<dots> = (if a = [] then [] else a @ r)"
  proof (cases a)
    case Nil
    with assms(3) show ?thesis by (simp add: list_all_iff)
  next
    case (Cons x xs)
    have "\<not> js_space x"
    proof
      assume "js_space x"
      with front Cons have "dropWhile js_space xs = x # xs" by simp
      then have "length (dropWhile js_space xs) = Suc (length xs)" by simp
      with length_dropWhile_le [of js_space xs] show False by simp
    qed
    with Cons show ?thesis by simp
  qed
  finally have lt: "ltrim (l @ a @ r) = (if a = [] then [] else a @ r)" .
  show ?thesis
  proof (cases "a = []")
    case True
    with lt show ?thesis by (simp add: trim_def rtrim_def)
  next
    case False
    with lt have "trim (l @ a @ r) = rev (dropWhile js_space (rev r @ rev a))"
      by (simp add: trim_def rtrim_def)
    also have "\<dots> = rev (dropWhile js_space (rev a))"
    proof -
      from assms(3) have "js_space x" if "x \<in> set (rev r)" for x
        using that by (simp add: list_all_iff)
      then have "dropWhile js_space (rev r @ rev a) = dropWhile js_space (rev a)"
        by (rule dropWhile_append2)
      then show ?thesis by simp
    qed
    also from rear have "\<dots> = a" by simp
    finally show ?thesis .
  qed
qed

section \<open>The token storage\<close>

lemma truthy_Some: "truthy v \<longleftrightarrow> (\<exists>s. v = Some s \<and> s \<noteq> [])"
  by (cases v) (simp_all add: truthy_def)





section \<open>Registration of a new identity\<close>




text \<open>
  The display name is not validated; one of 201 characters passes the check and is
  refused by the column, which the handler answers with status 500.
\<close>

lemma long_twitter_name_refused:
  "register_post (bob\<lparr>body_twitter_name := Some (replicate 201 (CHR ''x''))\<rparr>) 9 alice_db =
     (Json 500 (Error ''value too long for type character varying(200)''),
      \<lparr>user_profiles = [alice_row], user_profiles_id_seq = 2\<rparr>)"
  by code_simp

section \<open>Registration of a taken identity\<close>




section \<open>Single use of a request token\<close>




section \<open>The admin listing\<close>

text \<open>
  C4, as the code has it. Take a listing request that passes \<^verbatim>\<open>validateAdmin\<close> (a username
  of 3 to 50 characters and a password of at least 8). If the username, trimmed and
  escaped, and the password as submitted equal \<^verbatim>\<open>ADMIN_USERNAME\<close> and
  \<^verbatim>\<open>ADMIN_PASSWORD\<close>, \<^verbatim>\<open>POST /users\<close> answers 200 with all rows of the table, newest
  \<^verbatim>\<open>created_at\<close> first, and their count. If either differs it answers 401 with one and
  the same body, whichever of the two is wrong, and no rows.
\<close>

theorem users_post_listing:
  assumes "fst (validateAdmin req) = []"
  shows "(map_option (escape \<circ> trim) (body_username req) = ADMIN_USERNAME e
            \<and> body_password req = ADMIN_PASSWORD e \<longrightarrow>
          (\<exists>rows. users_post req e db = Json 200 (Users rows (length rows))
             \<and> mset rows = mset (user_profiles db)
             \<and> sorted_wrt (\<lambda>a b. created_at a \<ge> created_at b) rows))
      \<and> (map_option (escape \<circ> trim) (body_username req) \<noteq> ADMIN_USERNAME e
            \<or> body_password req \<noteq> ADMIN_PASSWORD e \<longrightarrow>
          users_post req e db = Json 401 (Unauthorized ''Invalid admin credentials''))"
  unfolding users_post_valid [OF assms]
  using newest_first_mset [of db] newest_first_sorted [of db] by auto

text \<open>
  A wrong password of five characters is stopped by \<^verbatim>\<open>validateAdmin\<close>: the answer is 400
  with the validation details, not 401.
\<close>

theorem users_post_short_password_counterexample:
  "body_password (admin\<lparr>body_password := Some ''wrong''\<rparr>) \<noteq> ADMIN_PASSWORD admin_env
   \<and> users_post (admin\<lparr>body_password := Some ''wrong''\<rparr>) admin_env alice_db =
       Json 400 (ValidationFailed
         [VError ''password'' ''Password must be at least 8 characters long''])"
  by code_simp

theorem users_post_listing_witness:
  "users_post admin admin_env \<lparr>user_profiles = [alice_row, bob_row], user_profiles_id_seq = 2\<rparr>
     = Json 200 (Users [bob_row, alice_row] 2)
   \<and> users_post (admin\<lparr>body_password := Some ''incorrect horse''\<rparr>) admin_env alice_db
     = Json 401 (Unauthorized ''Invalid admin credentials'')
   \<and> users_post (admin\<lparr>body_username := Some ''root''\<rparr>) admin_env alice_db
     = Json 401 (Unauthorized ''Invalid admin credentials'')"
proof -
  let ?db = "\<lparr>user_profiles = [alice_row, bob_row], user_profiles_id_seq = 2\<rparr>"
  let ?badp = "admin\<lparr>body_password := Some ''incorrect horse''\<rparr>"
  let ?badu = "admin\<lparr>body_username := Some ''root''\<rparr>"
  have v1: "fst (validateAdmin admin) = []" by code_simp
  have v2: "fst (validateAdmin ?badp) = []" by code_simp
  have v3: "fst (validateAdmin ?badu) = []" by code_simp
  have m1: "map_option (escape \<circ> trim) (body_username admin) = ADMIN_USERNAME admin_env
            \<and> body_password admin = ADMIN_PASSWORD admin_env" by code_simp
  have m2: "body_password ?badp \<noteq> ADMIN_PASSWORD admin_env" by code_simp
  have m3: "map_option (escape \<circ> trim) (body_username ?badu) \<noteq> ADMIN_USERNAME admin_env"
    by code_simp
  from users_post_listing [OF v1, of admin_env ?db] m1
  obtain rows where "users_post admin admin_env ?db = Json 200 (Users rows (length rows))"
    by blast
  moreover have "users_post admin admin_env ?db = Json 200 (Users [bob_row, alice_row] 2)"
    by code_simp
  moreover from users_post_listing [OF v2, of admin_env alice_db] m2
  have "users_post ?badp admin_env alice_db = Json 401 (Unauthorized ''Invalid admin credentials'')"
    by blast
  moreover from users_post_listing [OF v3, of admin_env alice_db] m3
  have "users_post ?badu admin_env alice_db = Json 401 (Unauthorized ''Invalid admin credentials'')"
    by blast
  ultimately show ?thesis by simp
qed

section \<open>Wallet address validation\<close>

text \<open>
  C5. The \<^verbatim>\<open>wallet_address\<close> chain of \<^verbatim>\<open>validateRegistration\<close> passes a field exactly when
  it is a string made of \<^verbatim>\<open>0x\<close> and 40 hexadecimal digits (42 characters in all). Every
  string of 41 or of 43 characters is rejected, and so is every string of 42 characters
  with a character that is not a hexadecimal digit after the first two.
\<close>

theorem wallet_address_validation:
  "(passes ''wallet_address'' False wallet_address_chain v \<longleftrightarrow>
      (\<exists>hs. v = Some (''0x'' @ hs) \<and> length hs = 40 \<and> list_all hex_digit hs))
   \<and> (\<forall>s. length s = 41 \<or> length s = 43 \<longrightarrow>
          \<not> passes ''wallet_address'' False wallet_address_chain (Some s))
   \<and> (\<forall>s c. length s = 42 \<and> c \<in> set (drop 2 s) \<and> \<not> hex_digit c \<longrightarrow>
          \<not> passes ''wallet_address'' False wallet_address_chain (Some s))"
proof (intro conjI allI impI)
  show "passes ''wallet_address'' False wallet_address_chain v \<longleftrightarrow>
      (\<exists>hs. v = Some (''0x'' @ hs) \<and> length hs = 40 \<and> list_all hex_digit hs)"
    by (rule wallet_passes)
next
  fix s :: string
  assume "length s = 41 \<or> length s = 43"
  then show "\<not> passes ''wallet_address'' False wallet_address_chain (Some s)"
    unfolding wallet_passes by auto
next
  fix s :: string and c
  assume a: "length s = 42 \<and> c \<in> set (drop 2 s) \<and> \<not> hex_digit c"
  show "\<not> passes ''wallet_address'' False wallet_address_chain (Some s)"
  proof
    assume "passes ''wallet_address'' False wallet_address_chain (Some s)"
    then obtain hs where "s = ''0x'' @ hs" "list_all hex_digit hs"
      unfolding wallet_passes by auto
    with a show False by (auto simp: list_all_iff)
  qed
qed

theorem wallet_address_validation_witness:
  "passes ''wallet_address'' False wallet_address_chain
     (Some ''0x52908400098527886E0F7030069857D2E4169EE7'')
   \<and> \<not> passes ''wallet_address'' False wallet_address_chain
         (Some ''0x52908400098527886E0F7030069857D2E4169EE'')
   \<and> \<not> passes ''wallet_address'' False wallet_address_chain
         (Some ''0x52908400098527886E0F7030069857D2E4169EE7a'')
   \<and> \<not> passes ''wallet_address'' False wallet_address_chain
         (Some ''0x52908400098527886E0F7030069857D2E4169EEg'')"
proof -
  let ?w = "''52908400098527886E0F7030069857D2E4169EE7''"
  note T = wallet_address_validation [of "Some (''0x'' @ ?w)"]
  have "length ?w = 40 \<and> list_all hex_digit ?w" by (simp add: hex_digit_def)
  then have "\<exists>hs. Some (''0x'' @ ?w) = Some (''0x'' @ hs) \<and> length hs = 40 \<and> list_all hex_digit hs"
    by blast
  then have a1: "passes ''wallet_address'' False wallet_address_chain (Some (''0x'' @ ?w))"
    by (rule iffD2 [OF conjunct1 [OF T]])
  have "length ''0x52908400098527886E0F7030069857D2E4169EE'' = 41" by simp
  then have a2: "\<not> passes ''wallet_address'' False wallet_address_chain
                    (Some ''0x52908400098527886E0F7030069857D2E4169EE'')"
    using conjunct1 [OF conjunct2 [OF T]] by blast
  have "length ''0x52908400098527886E0F7030069857D2E4169EE7a'' = 43" by simp
  then have a3: "\<not> passes ''wallet_address'' False wallet_address_chain
                    (Some ''0x52908400098527886E0F7030069857D2E4169EE7a'')"
    using conjunct1 [OF conjunct2 [OF T]] by blast
  have "length ''0x52908400098527886E0F7030069857D2E4169EEg'' = 42
      \<and> CHR ''g'' \<in> set (drop 2 ''0x52908400098527886E0F7030069857D2E4169EEg'')
      \<and> \<not> hex_digit (CHR ''g'')" by (simp add: hex_digit_def)
  then have a4: "\<not> passes ''wallet_address'' False wallet_address_chain
                    (Some ''0x52908400098527886E0F7030069857D2E4169EEg'')"
    using conjunct2 [OF conjunct2 [OF T]] by blast
  from a1 have "passes ''wallet_address'' False wallet_address_chain
     (Some ''0x52908400098527886E0F7030069857D2E4169EE7'')" by simp
  with a2 a3 a4 show ?thesis by (intro conjI)
qed

section \<open>Provider id validation\<close>

text \<open>
  C6, as the code has it. The \<^verbatim>\<open>twitter_id\<close> chain of \<^verbatim>\<open>validateRegistration\<close> passes a
  field exactly when it is a string of 1 to 20 characters made of an optional sign, an
  optional run of digits closed by a point, and at least one digit. So
  \<^verbatim>\<open>abc123\<close> is rejected, \<^verbatim>\<open>123456789012345\<close> is accepted, every non-empty string of at
  most 20 digits is accepted, and every string with a character that is neither a digit
  nor a sign nor a point is rejected.
\<close>

theorem twitter_id_validation:
  "(passes ''twitter_id'' False twitter_id_chain v \<longleftrightarrow>
      (\<exists>s. v = Some s \<and> 1 \<le> length s \<and> length s \<le> 20 \<and>
         (\<exists>sign whole ds. s = sign @ whole @ ds \<and> sign \<in> {[], ''+'', ''-''} \<and>
            (whole = [] \<or> (\<exists>ws. whole = ws @ ''.'' \<and> list_all decimal_digit ws)) \<and>
            ds \<noteq> [] \<and> list_all decimal_digit ds)))
   \<and> \<not> passes ''twitter_id'' False twitter_id_chain (Some ''abc123'')
   \<and> passes ''twitter_id'' False twitter_id_chain (Some ''123456789012345'')
   \<and> (\<forall>s. s \<noteq> [] \<and> length s \<le> 20 \<and> list_all decimal_digit s \<longrightarrow>
          passes ''twitter_id'' False twitter_id_chain (Some s))
   \<and> (\<forall>s c. c \<in> set s \<and> \<not> decimal_digit c \<and> c \<notin> set ''+-.'' \<longrightarrow>
          \<not> passes ''twitter_id'' False twitter_id_chain (Some s))"
proof (intro conjI allI impI)
  show "passes ''twitter_id'' False twitter_id_chain v \<longleftrightarrow>
      (\<exists>s. v = Some s \<and> 1 \<le> length s \<and> length s \<le> 20 \<and>
         (\<exists>sign whole ds. s = sign @ whole @ ds \<and> sign \<in> {[], ''+'', ''-''} \<and>
            (whole = [] \<or> (\<exists>ws. whole = ws @ ''.'' \<and> list_all decimal_digit ws)) \<and>
            ds \<noteq> [] \<and> list_all decimal_digit ds))"
    unfolding twitter_id_passes lang_numeric by (simp only: mem_Collect_eq)
next
  have "CHR ''a'' \<in> set ''abc123''" "\<not> decimal_digit (CHR ''a'')" "CHR ''a'' \<notin> set ''+-.''"
    by (simp_all add: decimal_digit_def)
  then have "''abc123'' \<notin> lang numeric" using numeric_chars by blast
  then show "\<not> passes ''twitter_id'' False twitter_id_chain (Some ''abc123'')"
    unfolding twitter_id_passes by simp
next
  have "''123456789012345'' \<in> lang numeric"
    by (rule digits_numeric) (simp_all add: decimal_digit_def)
  then show "passes ''twitter_id'' False twitter_id_chain (Some ''123456789012345'')"
    unfolding twitter_id_passes by simp
next
  fix s :: string
  assume a: "s \<noteq> [] \<and> length s \<le> 20 \<and> list_all decimal_digit s"
  then have "s \<in> lang numeric" by (simp add: digits_numeric)
  moreover from a have "1 \<le> length s" by (cases s) simp_all
  ultimately show "passes ''twitter_id'' False twitter_id_chain (Some s)"
    unfolding twitter_id_passes using a by simp
next
  fix s :: string and c
  assume "c \<in> set s \<and> \<not> decimal_digit c \<and> c \<notin> set ''+-.''"
  then have "s \<notin> lang numeric" using numeric_chars by blast
  then show "\<not> passes ''twitter_id'' False twitter_id_chain (Some s)"
    unfolding twitter_id_passes by simp
qed

text \<open>
  The chain accepts \<^verbatim>\<open>-42\<close>, which has a character that is not a digit: \<^verbatim>\<open>isNumeric\<close>
  allows a sign and a decimal point unless \<^verbatim>\<open>no_symbols\<close> is set.
\<close>

theorem twitter_id_signed_counterexample:
  "passes ''twitter_id'' False twitter_id_chain (Some ''-42'')
   \<and> CHR ''-'' \<in> set ''-42'' \<and> \<not> decimal_digit (CHR ''-'')"
  by (simp add: passes_def body_chain_def twitter_id_chain_def notEmpty_def isEmpty_def
        isLength_def isNumeric_def numeric_def digit_def Opt_def Some1_def Lit_def toString_def
        decimal_digit_def)

theorem twitter_id_validation_witness:
  "passes ''twitter_id'' False twitter_id_chain (Some ''+1.5'')
   \<and> passes ''twitter_id'' False twitter_id_chain (Some ''7'')
   \<and> \<not> passes ''twitter_id'' False twitter_id_chain (Some ''12a'')"
proof -
  note T = twitter_id_validation [of "Some ''+1.5''"]
  have "''+1.5'' = ''+'' @ ''1.'' @ ''5'' \<and> ''+'' \<in> {[], ''+'', ''-''} \<and>
        (''1.'' = [] \<or> (\<exists>ws. ''1.'' = ws @ ''.'' \<and> list_all decimal_digit ws)) \<and>
        ''5'' \<noteq> [] \<and> list_all decimal_digit ''5''"
    by (simp add: decimal_digit_def)
  then have "\<exists>sign whole ds. ''+1.5'' = sign @ whole @ ds \<and> sign \<in> {[], ''+'', ''-''} \<and>
            (whole = [] \<or> (\<exists>ws. whole = ws @ ''.'' \<and> list_all decimal_digit ws)) \<and>
            ds \<noteq> [] \<and> list_all decimal_digit ds"
    by blast
  moreover have "1 \<le> length ''+1.5'' \<and> length ''+1.5'' \<le> 20" by simp
  ultimately have a1: "passes ''twitter_id'' False twitter_id_chain (Some ''+1.5'')"
    using conjunct1 [OF T] by blast
  have "''7'' \<noteq> [] \<and> length ''7'' \<le> 20 \<and> list_all decimal_digit ''7''"
    by (simp add: decimal_digit_def)
  then have a2: "passes ''twitter_id'' False twitter_id_chain (Some ''7'')"
    using conjunct1 [OF conjunct2 [OF conjunct2 [OF conjunct2 [OF T]]]] by blast
  have "CHR ''a'' \<in> set ''12a'' \<and> \<not> decimal_digit (CHR ''a'') \<and> CHR ''a'' \<notin> set ''+-.''"
    by (simp add: decimal_digit_def)
  then have a3: "\<not> passes ''twitter_id'' False twitter_id_chain (Some ''12a'')"
    using conjunct2 [OF conjunct2 [OF conjunct2 [OF conjunct2 [OF T]]]] by blast
  from a1 a2 a3 show ?thesis by (intro conjI)
qed

section \<open>Registration with a blank chat handle\<close>

text \<open>
  C7, as the code has it. A registration request whose \<^verbatim>\<open>telegram_username\<close> is empty
  after trimming is answered 400 and the table stays as it was. When the field is absent
  or the empty string the answer is the validation failure, with the field's message
  \<^verbatim>\<open>Telegram username is required\<close> among its details. When the field is not empty and
  the request passes \<^verbatim>\<open>validateRegistration\<close>, the answer is the handler's
  missing-required-fields error, which has no details.
\<close>

theorem blank_telegram_username:
  assumes blank: "trim (toString (body_telegram_username req)) = []"
  shows "(\<exists>b. fst (register_post req now db) = Json 400 b)
      \<and> snd (register_post req now db) = db
      \<and> (toString (body_telegram_username req) = [] \<longrightarrow>
           (\<exists>errs. fst (register_post req now db) = Json 400 (ValidationFailed errs)
              \<and> VError ''telegram_username'' ''Telegram username is required'' \<in> set errs))
      \<and> (toString (body_telegram_username req) \<noteq> [] \<and> fst (validateRegistration req) = [] \<longrightarrow>
           fst (register_post req now db) = missing_required_fields)"
proof -
  have invalid: "register_post req now db =
      (Json 400 (ValidationFailed (fst (validateRegistration req))), db)"
    if "fst (validateRegistration req) \<noteq> []"
    using that by (simp add: register_post_def register_check_def split_def)
  have valid: "register_post req now db = (missing_required_fields, db)"
    if "fst (validateRegistration req) = []"
    unfolding register_post_def register_check_valid [OF that] using blank by (simp add: Let_def)
  have required: "VError ''telegram_username'' ''Telegram username is required''
      \<in> set (fst (validateRegistration req))"
    if "toString (body_telegram_username req) = []"
    unfolding validateRegistration_errors using that
    by (simp add: body_chain_def telegram_username_chain_def notEmpty_def isEmpty_def)
  show ?thesis
  proof (cases "fst (validateRegistration req) = []")
    case True
    with valid required show ?thesis by (auto simp: missing_required_fields_def)
  next
    case False
    with invalid required show ?thesis by auto
  qed
qed

text \<open>
  A handle of one space, in an otherwise valid request, is refused by the handler's check
  of the required fields: the answer names no field of its own and has no details.
\<close>

theorem blank_telegram_username_counterexample:
  "trim '' '' = []
   \<and> register_post (bob\<lparr>body_telegram_username := Some '' ''\<rparr>) 9 alice_db =
       (Json 400 (Error
          ''Missing required fields: twitter_id, telegram_username, and wallet_address are required''),
        alice_db)"
  by code_simp

theorem blank_telegram_username_witness:
  "register_post (alice\<lparr>body_telegram_username := Some ''''\<rparr>) 7 empty_db =
     (Json 400 (ValidationFailed
        [VError ''telegram_username'' ''Telegram username is required'',
         VError ''telegram_username'' ''Telegram username must be between 1 and 50 characters'']),
      empty_db)
   \<and> fst (register_post (alice\<lparr>body_telegram_username := Some [CHR 0x09, CHR 0x20]\<rparr>) 7 empty_db)
       = missing_required_fields"
proof -
  let ?none = "alice\<lparr>body_telegram_username := Some ''''\<rparr>"
  let ?tab = "alice\<lparr>body_telegram_username := Some [CHR 0x09, CHR 0x20]\<rparr>"
  have b1: "trim (toString (body_telegram_username ?none)) = []" by code_simp
  have b2: "trim (toString (body_telegram_username ?tab)) = []" by code_simp
  have e: "toString (body_telegram_username ?none) = []" by code_simp
  have v: "toString (body_telegram_username ?tab) \<noteq> [] \<and> fst (validateRegistration ?tab) = []"
    by code_simp
  from blank_telegram_username [OF b1, of 7 empty_db] e
  obtain errs where "fst (register_post ?none 7 empty_db) = Json 400 (ValidationFailed errs)"
    "VError ''telegram_username'' ''Telegram username is required'' \<in> set errs"
    "snd (register_post ?none 7 empty_db) = empty_db"
    by blast
  moreover have "register_post ?none 7 empty_db =
     (Json 400 (ValidationFailed
        [VError ''telegram_username'' ''Telegram username is required'',
         VError ''telegram_username'' ''Telegram username must be between 1 and 50 characters'']),
      empty_db)"
    by code_simp
  moreover from blank_telegram_username [OF b2, of 7 empty_db] v
  have "fst (register_post ?tab 7 empty_db) = missing_required_fields" by blast
  ultimately show ?thesis by simp
qed

section \<open>Starting the handshake\<close>

text \<open>
  C8, as the code has it, for a server whose \<^verbatim>\<open>oauth\<close> is configured. On a 2xx response
  whose \<^verbatim>\<open>oauth_token\<close> and \<^verbatim>\<open>oauth_token_secret\<close> are both present and not empty,
  \<^verbatim>\<open>GET /auth/twitter\<close> stores the secret under the token and answers 200 with the
  authorize URL followed by \<^verbatim>\<open>?oauth_token=\<close> and the token. When \<^verbatim>\<open>fetch\<close> rejects, or
  the response is not 2xx, it answers 500 with the rejection's message, or with
  \<^verbatim>\<open>Failed to get request token:\<close> and the response text. When the response is 2xx and
  either field is absent or empty it answers 500 with \<^verbatim>\<open>Invalid response from Twitter\<close>.
  In the three failures the storage is as it was.
\<close>

theorem auth_twitter_outcomes:
  "(ok status \<and> get (URLSearchParams text) ''oauth_token'' = Some t \<and> t \<noteq> []
      \<and> get (URLSearchParams text) ''oauth_token_secret'' = Some s \<and> s \<noteq> [] \<longrightarrow>
      auth_twitter True URLSearchParams (Response status text) storage =
        (Json 200 (AuthUrl (TWITTER_AUTHORIZE_URL @ ''?oauth_token='' @ t)),
         Some ((case storage of None \<Rightarrow> Map.empty | Some m \<Rightarrow> m)(t \<mapsto> s))))
   \<and> auth_twitter True URLSearchParams (Rejected reason) storage =
        (Json 500 (Error reason), storage)
   \<and> (\<not> ok status \<longrightarrow>
      auth_twitter True URLSearchParams (Response status text) storage =
        (Json 500 (Error (''Failed to get request token: '' @ text)), storage))
   \<and> (ok status \<and> (\<not> truthy (get (URLSearchParams text) ''oauth_token'')
                    \<or> \<not> truthy (get (URLSearchParams text) ''oauth_token_secret'')) \<longrightarrow>
      auth_twitter True URLSearchParams (Response status text) storage =
        (Json 500 (Error ''Invalid response from Twitter''), storage))"
  by (auto simp: auth_twitter_def auth_twitter_try_def Let_def truthy_Some toString_def)

text \<open>
  A 2xx response that has both fields, the token being empty, is refused as an invalid
  response and nothing is stored.
\<close>

theorem auth_twitter_empty_token_counterexample:
  "get (sample_URLSearchParams ''oauth_token=&oauth_token_secret=s3cret'') ''oauth_token'' = Some []
   \<and> get (sample_URLSearchParams ''oauth_token=&oauth_token_secret=s3cret'') ''oauth_token_secret''
       = Some ''s3cret''
   \<and> auth_twitter True sample_URLSearchParams
        (Response 200 ''oauth_token=&oauth_token_secret=s3cret'') None =
       (Json 500 (Error ''Invalid response from Twitter''), None)"
  by (simp add: auth_twitter_def auth_twitter_try_def get_def ok_def truthy_def
        sample_URLSearchParams_def)

theorem auth_twitter_outcomes_witness:
  "auth_twitter True sample_URLSearchParams
        (Response 200 ''oauth_token=tok&oauth_token_secret=s3cret'') None =
     (Json 200 (AuthUrl ''https://api.twitter.com/oauth/authorize?oauth_token=tok''),
      Some [''tok'' \<mapsto> ''s3cret''])
   \<and> auth_twitter True sample_URLSearchParams (Response 503 ''Over capacity'') None =
     (Json 500 (Error ''Failed to get request token: Over capacity''), None)
   \<and> auth_twitter True sample_URLSearchParams (Response 200 ''oauth_token=tok'') None =
     (Json 500 (Error ''Invalid response from Twitter''), None)"
proof -
  let ?U = sample_URLSearchParams
  have h1: "ok 200 \<and> get (?U ''oauth_token=tok&oauth_token_secret=s3cret'') ''oauth_token'' = Some ''tok''
      \<and> ''tok'' \<noteq> []
      \<and> get (?U ''oauth_token=tok&oauth_token_secret=s3cret'') ''oauth_token_secret'' = Some ''s3cret''
      \<and> ''s3cret'' \<noteq> []"
    by (simp add: ok_def get_def sample_URLSearchParams_def)
  from conjunct1 [OF auth_twitter_outcomes
      [of 200 ?U "''oauth_token=tok&oauth_token_secret=s3cret''" "''tok''" "''s3cret''" None]] h1
  have a1: "auth_twitter True ?U (Response 200 ''oauth_token=tok&oauth_token_secret=s3cret'') None =
      (Json 200 (AuthUrl (TWITTER_AUTHORIZE_URL @ ''?oauth_token='' @ ''tok'')),
       Some ((case None of None \<Rightarrow> Map.empty | Some m \<Rightarrow> m)(''tok'' \<mapsto> ''s3cret'')))"
    by (rule mp)
  have h2: "\<not> ok 503" by (simp add: ok_def)
  from conjunct1 [OF conjunct2 [OF conjunct2 [OF auth_twitter_outcomes
      [of 503 ?U "''Over capacity''" _ _ None]]]] h2
  have a2: "auth_twitter True ?U (Response 503 ''Over capacity'') None =
      (Json 500 (Error (''Failed to get request token: '' @ ''Over capacity'')), None)"
    by (rule mp)
  have h3: "ok 200 \<and> (\<not> truthy (get (?U ''oauth_token=tok'') ''oauth_token'')
                    \<or> \<not> truthy (get (?U ''oauth_token=tok'') ''oauth_token_secret''))"
    by (simp add: ok_def get_def truthy_def sample_URLSearchParams_def)
  from conjunct2 [OF conjunct2 [OF conjunct2 [OF auth_twitter_outcomes
      [of 200 ?U "''oauth_token=tok''" _ _ None]]]] h3
  have a3: "auth_twitter True ?U (Response 200 ''oauth_token=tok'') None =
      (Json 500 (Error ''Invalid response from Twitter''), None)"
    by (rule mp)
  from a1 a2 a3 show ?thesis by (simp add: TWITTER_AUTHORIZE_URL_def)
qed

section \<open>The leaderboard\<close>


section \<open>The admin username is sanitized\<close>

text \<open>
  C10, as the code has it. For a listing request that passes \<^verbatim>\<open>validateAdmin\<close>, access is
  granted exactly when the submitted username, trimmed and then escaped, equals
  \<^verbatim>\<open>ADMIN_USERNAME\<close> and the password as submitted equals \<^verbatim>\<open>ADMIN_PASSWORD\<close>. So a
  submitted username of 3 to 50 characters that is the configured one with whitespace
  around it is granted access with the right password (of at least 8 characters), when
  the configured username has no whitespace at its ends and none of the escaped
  characters. And when the configured username has a double quote, single quote,
  less-than, greater-than, slash, backslash or backtick, no request is granted access.
  A configured ampersand is left out of this: it does occur in escaped text.
\<close>

theorem admin_username_sanitized:
  "(fst (validateAdmin req) = [] \<longrightarrow>
      ((\<exists>rows n. users_post req e db = Json 200 (Users rows n)) \<longleftrightarrow>
       map_option (escape \<circ> trim) (body_username req) = ADMIN_USERNAME e
         \<and> body_password req = ADMIN_PASSWORD e))
   \<and> (ADMIN_USERNAME e = Some a \<and> trim a = a \<and> set a \<inter> set escaped = {}
        \<and> body_username req = Some (l @ a @ r) \<and> list_all js_space l \<and> list_all js_space r
        \<and> 3 \<le> length (l @ a @ r) \<and> length (l @ a @ r) \<le> 50
        \<and> body_password req = ADMIN_PASSWORD e
        \<and> (\<exists>p. body_password req = Some p \<and> 8 \<le> length p) \<longrightarrow>
      (\<exists>rows n. users_post req e db = Json 200 (Users rows n)))
   \<and> (ADMIN_USERNAME e = Some a \<and> (\<exists>c \<in> set a. c \<in> set escaped \<and> c \<noteq> CHR ''&'') \<longrightarrow>
      (\<forall>any. \<not> (\<exists>rows n. users_post any e db = Json 200 (Users rows n))))"
proof (intro conjI impI)
  assume "fst (validateAdmin req) = []"
  then show "(\<exists>rows n. users_post req e db = Json 200 (Users rows n)) \<longleftrightarrow>
       map_option (escape \<circ> trim) (body_username req) = ADMIN_USERNAME e
         \<and> body_password req = ADMIN_PASSWORD e"
    by (simp add: users_post_valid)
next
  assume a: "ADMIN_USERNAME e = Some a \<and> trim a = a \<and> set a \<inter> set escaped = {}
        \<and> body_username req = Some (l @ a @ r) \<and> list_all js_space l \<and> list_all js_space r
        \<and> 3 \<le> length (l @ a @ r) \<and> length (l @ a @ r) \<le> 50
        \<and> body_password req = ADMIN_PASSWORD e
        \<and> (\<exists>p. body_password req = Some p \<and> 8 \<le> length p)"
  then have valid: "fst (validateAdmin req) = []"
    unfolding validateAdmin_errors by blast
  from a have "trim (l @ a @ r) = a" by (simp add: trim_padded)
  moreover from a have "escape a = a" by (simp add: escape_plain)
  ultimately have "map_option (escape \<circ> trim) (body_username req) = ADMIN_USERNAME e"
    using a by simp
  with a show "\<exists>rows n. users_post req e db = Json 200 (Users rows n)"
    by (simp add: users_post_valid [OF valid])
next
  assume a: "ADMIN_USERNAME e = Some a \<and> (\<exists>c \<in> set a. c \<in> set escaped \<and> c \<noteq> CHR ''&'')"
  then obtain c where c: "c \<in> set a" "c \<in> set escaped" "c \<noteq> CHR ''&''" by blast
  show "\<forall>any. \<not> (\<exists>rows n. users_post any e db = Json 200 (Users rows n))"
  proof (intro allI notI)
    fix any
    assume ok: "\<exists>rows n. users_post any e db = Json 200 (Users rows n)"
    have valid: "fst (validateAdmin any) = []"
    proof (rule ccontr)
      assume "fst (validateAdmin any) \<noteq> []"
      from users_post_invalid [OF this] ok show False by simp
    qed
    from ok have "map_option (escape \<circ> trim) (body_username any) = ADMIN_USERNAME e"
      unfolding users_post_valid [OF valid] by (auto split: if_splits)
    with a obtain u where "a = escape (trim u)" by (cases "body_username any") auto
    with c(1) escape_markup_free [OF c(2,3)] show False by simp
  qed
qed

text \<open>
  A configured username with an ampersand that is itself the escaped form of a name:
  submitting the name is granted access.
\<close>

theorem admin_username_entity_counterexample:
  "CHR ''&'' \<in> set ''a&amp;b''
   \<and> users_post \<lparr>body_username = Some ''a&b'', body_password = Some ''correct horse''\<rparr>
        \<lparr>ADMIN_USERNAME = Some ''a&amp;b'', ADMIN_PASSWORD = Some ''correct horse'',
          FRONTEND_URL = None\<rparr> alice_db
      = Json 200 (Users [alice_row] 1)"
  by code_simp

theorem admin_username_sanitized_witness:
  "users_post (admin\<lparr>body_username := Some ''  admin ''\<rparr>) admin_env alice_db
     = Json 200 (Users [alice_row] 1)
   \<and> users_post \<lparr>body_username = Some ''<root>'', body_password = Some ''correct horse''\<rparr>
        \<lparr>ADMIN_USERNAME = Some ''<root>'', ADMIN_PASSWORD = Some ''correct horse'',
          FRONTEND_URL = None\<rparr> alice_db
      = Json 401 (Unauthorized ''Invalid admin credentials'')"
proof -
  let ?req = "admin\<lparr>body_username := Some ''  admin ''\<rparr>"
  let ?lt = "\<lparr>body_username = Some ''<root>'', body_password = Some ''correct horse''\<rparr>"
  let ?e = "\<lparr>ADMIN_USERNAME = Some ''<root>'', ADMIN_PASSWORD = Some ''correct horse'',
          FRONTEND_URL = None\<rparr>"
  have h: "ADMIN_USERNAME admin_env = Some ''admin'' \<and> trim ''admin'' = ''admin''
        \<and> set ''admin'' \<inter> set escaped = {}
        \<and> body_username ?req = Some (''  '' @ ''admin'' @ '' '')
        \<and> list_all js_space ''  '' \<and> list_all js_space '' ''
        \<and> 3 \<le> length (''  '' @ ''admin'' @ '' '') \<and> length (''  '' @ ''admin'' @ '' '') \<le> 50
        \<and> body_password ?req = ADMIN_PASSWORD admin_env
        \<and> (\<exists>p. body_password ?req = Some p \<and> 8 \<le> length p)"
    by (simp add: admin_env_def admin_def trim_def ltrim_def rtrim_def js_space_def escaped_def)
  have v: "fst (validateAdmin ?req) = []" by code_simp
  note T = admin_username_sanitized [of ?req admin_env alice_db "''admin''" "''  ''" "'' ''"]
  from conjunct1 [OF conjunct2 [OF T]] h
  have "\<exists>rows n. users_post ?req admin_env alice_db = Json 200 (Users rows n)" by (rule mp)
  with conjunct1 [OF T] v
  have "map_option (escape \<circ> trim) (body_username ?req) = ADMIN_USERNAME admin_env" by blast
  moreover have a1: "users_post ?req admin_env alice_db = Json 200 (Users [alice_row] 1)"
    by code_simp
  moreover
  have "ADMIN_USERNAME ?e = Some ''<root>''
        \<and> (\<exists>c \<in> set ''<root>''. c \<in> set escaped \<and> c \<noteq> CHR ''&'')"
    by (simp add: escaped_def)
  with conjunct2 [OF conjunct2 [OF admin_username_sanitized [of _ ?e alice_db "''<root>''"]]]
  have "\<not> (\<exists>rows n. users_post ?lt ?e alice_db = Json 200 (Users rows n))" by blast
  moreover have "users_post ?lt ?e alice_db = Json 401 (Unauthorized ''Invalid admin credentials'')"
    by code_simp
  ultimately show ?thesis by simp
qed

end
